theory Spec2Isabelle
  imports Main "HOL-Library.Sublist" "HOL-Library.Char_ord" "HOL-Library.List_Lexorder"
begin

section \<open>Go string primitives used by the cache package\<close>

text \<open>
  A Go string is a sequence of bytes; \<open>string\<close> (a list of 8-bit characters) is the
  same thing. The functions below are the members of Go's \<open>strings\<close> package that the
  cache package calls, written as the standard library computes them.
\<close>

text \<open>\<open>strings.Split(s, "*")\<close>: the substrings between the separators, one more than
  there are separators; the empty string gives one empty part.\<close>

fun strings_Split_star :: "string \<Rightarrow> string list" where
  "strings_Split_star [] = [[]]"
| "strings_Split_star (c # cs) =
     (if c = CHR ''*'' then [] # strings_Split_star cs
      else (case strings_Split_star cs of
              [] \<Rightarrow> [[c]]
            | p # ps \<Rightarrow> (c # p) # ps))"

text \<open>\<open>strings.HasPrefix(s, prefix)\<close> is
  \<open>len(s) >= len(prefix) && s[0:len(prefix)] == prefix\<close>.\<close>

definition strings_HasPrefix :: "string \<Rightarrow> string \<Rightarrow> bool" where
  "strings_HasPrefix s pre \<longleftrightarrow> length pre \<le> length s \<and> take (length pre) s = pre"

text \<open>\<open>strings.HasSuffix(s, suffix)\<close> is
  \<open>len(s) >= len(suffix) && s[len(s)-len(suffix):] == suffix\<close>.\<close>

definition strings_HasSuffix :: "string \<Rightarrow> string \<Rightarrow> bool" where
  "strings_HasSuffix s suf \<longleftrightarrow> length suf \<le> length s \<and> drop (length s - length suf) s = suf"

text \<open>\<open>strings.Contains(s, "*")\<close>.\<close>

definition strings_Contains_star :: "string \<Rightarrow> bool" where
  "strings_Contains_star s \<longleftrightarrow> CHR ''*'' \<in> set s"

text \<open>\<open>strings.TrimPrefix(s, prefix)\<close>: \<open>s\<close> without the leading \<open>prefix\<close>, or \<open>s\<close>
  itself when it does not start with it.\<close>

definition strings_TrimPrefix :: "string \<Rightarrow> string \<Rightarrow> string" where
  "strings_TrimPrefix s pre = (if strings_HasPrefix s pre then drop (length pre) s else s)"

section \<open>The wildcard matcher\<close>

text \<open>
  \<open>matchWildcard(str, pattern)\<close>: the pattern is split at every \<open>*\<close>; with a single
  part the match is string equality; otherwise the string must start with the first part
  and, when the second part is not empty, end with the second part. Parts after the
  second are not looked at.
\<close>

definition matchWildcard :: "string \<Rightarrow> string \<Rightarrow> bool" where
  "matchWildcard str pattern =
     (let parts = strings_Split_star pattern in
      if length parts = 1 then str = pattern
      else if \<not> strings_HasPrefix str (parts ! 0) then False
      else if length parts > 1 \<and> parts ! 1 \<noteq> [] \<and> \<not> strings_HasSuffix str (parts ! 1) then False
      else True)"

section \<open>Errors, durations and the value codec\<close>

text \<open>
  Go errors are values. \<open>Errorf\<close> is \<open>fmt.Errorf\<close> with a plain message, \<open>Wrapf\<close> is
  \<open>fmt.Errorf\<close> with a \<open>%w\<close> verb around another error, \<open>ErrorfRetries\<close> is the message of
  \<open>emptyWithRetries\<close> that carries the retry ceiling. \<open>ErrKeyNotFound\<close> and \<open>ErrConflict\<close>
  are the sentinels of the embedded store, \<open>ErrNil\<close> the one of the remote store's client,
  \<open>ReplyError\<close> an error reply of the remote server and \<open>GobError\<close> a failure of the
  serialisation library.
\<close>

datatype error =
    ErrKeyNotFound
  | ErrConflict
  | ErrNil
  | GobError
  | ReplyError string
  | Errorf string
  | Wrapf string error
  | ErrorfRetries int

text \<open>\<open>errors.Is(err, target)\<close> walks the chain of wrapped errors.\<close>

fun errors_Is :: "error \<Rightarrow> error \<Rightarrow> bool" where
  "errors_Is (Wrapf msg e) target = (Wrapf msg e = target \<or> errors_Is e target)"
| "errors_Is e target = (e = target)"

text \<open>A \<open>time.Duration\<close> is a signed 64-bit count of nanoseconds; the clock \<open>now\<close> that
  the operations take is the wall-clock time of the call in nanoseconds since the epoch.\<close>

type_synonym duration = int

definition Second :: duration where
  "Second = 1000000000"

definition Minute :: duration where
  "Minute = 60 * Second"

text \<open>\<open>time.Now().Unix()\<close>: whole seconds since the epoch.\<close>

definition time_Unix :: "int \<Rightarrow> int" where
  "time_Unix now = now div Second"

text \<open>\<open>int(d.Minutes())\<close>: the duration in minutes, truncated toward zero (the rounding of
  the intermediate float is not modelled).\<close>

definition Minutes_int :: "duration \<Rightarrow> int" where
  "Minutes_int d = (if 0 \<le> d then d div Minute else - ((- d) div Minute))"

text \<open>Conversion to \<open>uint64\<close> and arithmetic in \<open>int64\<close> wrap around.\<close>

definition uint64 :: "int \<Rightarrow> int" where
  "uint64 x = x mod 2 ^ 64"

definition int64 :: "int \<Rightarrow> int" where
  "int64 x = (x + 2 ^ 63) mod 2 ^ 64 - 2 ^ 63"

text \<open>
  \<open>EntryCache\<close> is \<open>map[string]interface{}\<close>. The serialisation library (\<open>encoding/gob\<close>) is
  outside the repository: it is a parameter, a pair of functions from entries to bytes
  and back, each of which may fail. \<open>'v\<close> is the type of cached values, \<open>'b\<close> the type of
  encoded payloads.
\<close>

type_synonym 'v EntryCache = "string \<rightharpoonup> 'v"

record ('v, 'b) gob =
  Encode :: "'v EntryCache \<Rightarrow> error + 'b"
  Decode :: "'b \<Rightarrow> error + 'v EntryCache"

definition encodeValue :: "('v, 'b) gob \<Rightarrow> 'v EntryCache \<Rightarrow> error + 'b" where
  "encodeValue g item =
     (case Encode g item of
        Inl err \<Rightarrow> Inl (Wrapf ''failed to encode value'' err)
      | Inr buff \<Rightarrow> Inr buff)"

definition decodeValue :: "('v, 'b) gob \<Rightarrow> 'b \<Rightarrow> error + 'v EntryCache" where
  "decodeValue g data =
     (case Decode g data of
        Inl err \<Rightarrow> Inl (Wrapf ''failed to decode value'' err)
      | Inr item \<Rightarrow> Inr item)"

section \<open>The embedded store\<close>

text \<open>
  The embedded store (Badger) is outside the repository. Its state is the list of its
  entries in key order (byte-wise lexicographic), one per key; an entry carries the
  payload and \<open>ExpiresAt\<close>, an absolute time in seconds, \<open>0\<close> for no expiry. The model is
  sequential: a transaction sees and changes the state directly, writes are always
  accepted, and a commit conflicts only where \<open>emptyWithRetries\<close> is told so.
\<close>

record 'b item =
  Value :: 'b
  ExpiresAt :: int

type_synonym 'b DB = "(string \<times> 'b item) list"

text \<open>An entry whose expiry is set and not after the current second is treated as
  absent by every read.\<close>

definition isExpired :: "int \<Rightarrow> 'b item \<Rightarrow> bool" where
  "isExpired now it \<longleftrightarrow> ExpiresAt it \<noteq> 0 \<and> ExpiresAt it \<le> uint64 (time_Unix now)"

text \<open>The entry of a key, unless it is missing or has expired.\<close>

definition liveItem :: "'b DB \<Rightarrow> int \<Rightarrow> string \<Rightarrow> 'b item option" where
  "liveItem db now key =
     (case map_of db key of
        None \<Rightarrow> None
      | Some it \<Rightarrow> if isExpired now it then None else Some it)"

text \<open>\<open>txn.Get(key)\<close>: the live entry, or \<open>ErrKeyNotFound\<close>.\<close>

definition txn_Get :: "'b DB \<Rightarrow> int \<Rightarrow> string \<Rightarrow> error + 'b item" where
  "txn_Get db now key =
     (case liveItem db now key of
        None \<Rightarrow> Inl ErrKeyNotFound
      | Some it \<Rightarrow> Inr it)"

text \<open>\<open>txn.SetEntry(e)\<close>: the entry replaces the one of the same key, or is put at its
  place in key order.\<close>

fun txn_SetEntry :: "'b DB \<Rightarrow> string \<Rightarrow> 'b item \<Rightarrow> 'b DB" where
  "txn_SetEntry [] key it = [(key, it)]"
| "txn_SetEntry ((k, old) # rest) key it =
     (if key = k then (key, it) # rest
      else if key < k then (key, it) # (k, old) # rest
      else (k, old) # txn_SetEntry rest key it)"

text \<open>\<open>txn.Delete(key)\<close>.\<close>

definition txn_Delete :: "'b DB \<Rightarrow> string \<Rightarrow> 'b DB" where
  "txn_Delete db key = filter (\<lambda>(k, it). k \<noteq> key) db"

text \<open>\<open>badger.NewEntry(key, value).WithTTL(dur)\<close> sets
  \<open>ExpiresAt = uint64(time.Now().Add(dur).Unix())\<close>.\<close>

definition WithTTL :: "int \<Rightarrow> 'b \<Rightarrow> duration \<Rightarrow> 'b item" where
  "WithTTL now val dur = \<lparr>Value = val, ExpiresAt = uint64 (time_Unix (now + dur))\<rparr>"

definition NewEntry :: "'b \<Rightarrow> 'b item" where
  "NewEntry val = \<lparr>Value = val, ExpiresAt = 0\<rparr>"

text \<open>The keys an iterator visits from \<open>Rewind\<close>: every entry that has not expired, in
  key order.\<close>

definition iterKeys :: "'b DB \<Rightarrow> int \<Rightarrow> string list" where
  "iterKeys db now = map fst (filter (\<lambda>(k, it). \<not> isExpired now it) db)"

text \<open>The keys visited by \<open>for it.Seek(prefix); it.ValidForPrefix(prefix); it.Next()\<close>:
  from the first key not below \<open>prefix\<close>, for as long as the key starts with \<open>prefix\<close>.\<close>

definition seekKeys :: "'b DB \<Rightarrow> int \<Rightarrow> string \<Rightarrow> string list" where
  "seekKeys db now pre =
     takeWhile (\<lambda>k. strings_HasPrefix k pre) (dropWhile (\<lambda>k. k < pre) (iterKeys db now))"

section \<open>The embedded-store backend\<close>

record 'b BadgerCache =
  DBConn :: "'b DB"
  Prefix :: string

definition prefixedKey :: "'b BadgerCache \<Rightarrow> string \<Rightarrow> string" where
  "prefixedKey b key = Prefix b @ '':'' @ key"

text \<open>\<open>Set(keyStr, value, expires...)\<close>; the variadic argument is a list.\<close>

definition BadgerCache_Set ::
  "('v, 'b) gob \<Rightarrow> int \<Rightarrow> 'b BadgerCache \<Rightarrow> string \<Rightarrow> 'v \<Rightarrow> duration list
     \<Rightarrow> error option \<times> 'b BadgerCache" where
  "BadgerCache_Set g now b keyStr val expires =
     (let finalPrefixedKey = prefixedKey b keyStr;
          itemEntry = [finalPrefixedKey \<mapsto> val]
      in case encodeValue g itemEntry of
           Inl err \<Rightarrow> (Some (Wrapf ''failed to encode value'' err), b)
         | Inr encodedValue \<Rightarrow>
             (let newEntry = (if length expires > 0 then WithTTL now encodedValue (expires ! 0)
                              else NewEntry encodedValue)
              in (None, b\<lparr>DBConn := txn_SetEntry (DBConn b) finalPrefixedKey newEntry\<rparr>)))"

text \<open>\<open>Get(keyStr)\<close> returns the pair (value, error); \<open>None\<close> is Go's \<open>nil\<close>.\<close>

definition BadgerCache_Get ::
  "('v, 'b) gob \<Rightarrow> int \<Rightarrow> 'b BadgerCache \<Rightarrow> string \<Rightarrow> 'v option \<times> error option" where
  "BadgerCache_Get g now b keyStr =
     (let pk = prefixedKey b keyStr
      in case txn_Get (DBConn b) now pk of
           Inl err \<Rightarrow>
             (if errors_Is err ErrKeyNotFound then (None, Some (Errorf ''key not found''))
              else (None, Some (Wrapf ''transaction to get the value failed'' err)))
         | Inr it \<Rightarrow>
             (case decodeValue g (Value it) of
                Inl err \<Rightarrow> (None, Some err)
              | Inr decoded \<Rightarrow>
                  (case decoded pk of
                     None \<Rightarrow> (None, Some (Errorf (''key '' @ pk @ '' not found in decoded value'')))
                   | Some v \<Rightarrow> (Some v, None))))"

definition BadgerCache_Update ::
  "('v, 'b) gob \<Rightarrow> int \<Rightarrow> 'b BadgerCache \<Rightarrow> string \<Rightarrow> 'v \<Rightarrow> duration list
     \<Rightarrow> error option \<times> 'b BadgerCache" where
  "BadgerCache_Update g now b keyStr val expires =
     (let pk = prefixedKey b keyStr;
          entry = [pk \<mapsto> val]
      in case encodeValue g entry of
           Inl err \<Rightarrow> (Some (Wrapf ''failed to encode value'' err), b)
         | Inr encoded \<Rightarrow>
             (let e = (if length expires > 0 then WithTTL now encoded (expires ! 0)
                       else NewEntry encoded)
              in (None, b\<lparr>DBConn := txn_SetEntry (DBConn b) pk e\<rparr>)))"

definition BadgerCache_Exists :: "int \<Rightarrow> 'b BadgerCache \<Rightarrow> string \<Rightarrow> bool \<times> error option" where
  "BadgerCache_Exists now b keyStr =
     (case txn_Get (DBConn b) now (prefixedKey b keyStr) of
        Inl err \<Rightarrow> (if errors_Is err ErrKeyNotFound then (False, None) else (False, Some err))
      | Inr it \<Rightarrow> (True, None))"

definition BadgerCache_Delete :: "'b BadgerCache \<Rightarrow> string \<Rightarrow> error option \<times> 'b BadgerCache" where
  "BadgerCache_Delete b keyStr =
     (None, b\<lparr>DBConn := txn_Delete (DBConn b) (prefixedKey b keyStr)\<rparr>)"

text \<open>The loop of \<open>Keys\<close> over exact keys: a key is kept when \<open>txn.Get\<close> finds it; any
  error other than not-found ends the call.\<close>

fun keysExact :: "'b BadgerCache \<Rightarrow> int \<Rightarrow> string list \<Rightarrow> string list
     \<Rightarrow> string list \<times> error option" where
  "keysExact b now [] keys = (keys, None)"
| "keysExact b now (k # ks) keys =
     (case txn_Get (DBConn b) now (prefixedKey b k) of
        Inr it \<Rightarrow> keysExact b now ks (keys @ [prefixedKey b k])
      | Inl err \<Rightarrow>
          (if errors_Is err ErrKeyNotFound then keysExact b now ks keys
           else ([], Some (Wrapf ''failed to retrieve keys'' err))))"

definition BadgerCache_Keys ::
  "int \<Rightarrow> 'b BadgerCache \<Rightarrow> string list \<Rightarrow> string list \<times> error option" where
  "BadgerCache_Keys now b patternOrKey =
     (if length patternOrKey = 0 then
        (let prefixedPattern = Prefix b @ '':''
         in (filter (\<lambda>key. strings_HasPrefix key prefixedPattern) (iterKeys (DBConn b) now), None))
      else if length patternOrKey = 1 then
        (let pattern = patternOrKey ! 0
         in if strings_Contains_star pattern then
              (let prefixedPattern = prefixedKey b []
               in (filter (\<lambda>key. strings_HasPrefix key prefixedPattern \<and>
                                  matchWildcard (strings_TrimPrefix key (Prefix b @ '':'')) pattern)
                     (iterKeys (DBConn b) now), None))
            else keysExact b now [pattern] [])
      else keysExact b now patternOrKey [])"

text \<open>The scanning loops of \<open>KeysWithBatchSize\<close>: a key that qualifies is appended and the
  loop is left as soon as \<open>len(keys) >= batchSize\<close>.\<close>

fun scanBatch :: "(string \<Rightarrow> bool) \<Rightarrow> int \<Rightarrow> string list \<Rightarrow> string list \<Rightarrow> string list" where
  "scanBatch qualifies batchSize [] keys = keys"
| "scanBatch qualifies batchSize (key # rest) keys =
     (if qualifies key then
        (if int (length (keys @ [key])) \<ge> batchSize then keys @ [key]
         else scanBatch qualifies batchSize rest (keys @ [key]))
      else scanBatch qualifies batchSize rest keys)"

text \<open>The loop over several exact keys tests the bound after every key, found or not.\<close>

fun keysExactBatch :: "'b BadgerCache \<Rightarrow> int \<Rightarrow> int \<Rightarrow> string list \<Rightarrow> string list
     \<Rightarrow> string list \<times> error option" where
  "keysExactBatch b now batchSize [] keys = (keys, None)"
| "keysExactBatch b now batchSize (k # ks) keys =
     (case txn_Get (DBConn b) now (prefixedKey b k) of
        Inr it \<Rightarrow>
          (if int (length (keys @ [prefixedKey b k])) \<ge> batchSize then (keys @ [prefixedKey b k], None)
           else keysExactBatch b now batchSize ks (keys @ [prefixedKey b k]))
      | Inl err \<Rightarrow>
          (if errors_Is err ErrKeyNotFound then
             (if int (length keys) \<ge> batchSize then (keys, None)
              else keysExactBatch b now batchSize ks keys)
           else ([], Some (Wrapf ''failed to retrieve keys'' err))))"

definition BadgerCache_KeysWithBatchSize ::
  "int \<Rightarrow> 'b BadgerCache \<Rightarrow> int \<Rightarrow> string list \<Rightarrow> string list \<times> error option" where
  "BadgerCache_KeysWithBatchSize now b batchSize0 patternOrKey =
     (let batchSize = (if batchSize0 = 0 then 1000 else batchSize0)
      in if length patternOrKey = 0 then
           (let prefixedPattern = Prefix b @ '':''
            in (scanBatch (\<lambda>key. strings_HasPrefix key prefixedPattern) batchSize
                  (iterKeys (DBConn b) now) [], None))
         else if length patternOrKey = 1 then
           (let pattern = patternOrKey ! 0
            in if strings_Contains_star pattern then
                 (let prefixedPattern = prefixedKey b []
                  in (scanBatch (\<lambda>key. strings_HasPrefix key prefixedPattern \<and>
                                   matchWildcard (strings_TrimPrefix key (Prefix b @ '':'')) pattern)
                        batchSize (iterKeys (DBConn b) now) [], None))
               else keysExact b now [pattern] [])
         else keysExactBatch b now batchSize patternOrKey [])"

text \<open>\<open>Expire\<close> reads the entry and writes its payload back with a new expiry, in one
  transaction; the error of \<open>txn.Get\<close> is returned as it is.\<close>

definition BadgerCache_Expire ::
  "int \<Rightarrow> 'b BadgerCache \<Rightarrow> string \<Rightarrow> duration \<Rightarrow> error option \<times> 'b BadgerCache" where
  "BadgerCache_Expire now b keyStr expiration =
     (let pk = prefixedKey b keyStr
      in case txn_Get (DBConn b) now pk of
           Inl err \<Rightarrow> (Some err, b)
         | Inr it \<Rightarrow>
             (None, b\<lparr>DBConn := txn_SetEntry (DBConn b) pk (WithTTL now (Value it) expiration)\<rparr>))"

text \<open>\<open>TTL\<close>: \<open>time.Until(time.Unix(int64(item.ExpiresAt()), 0))\<close> when an expiry is set,
  zero otherwise.\<close>

definition BadgerCache_TTL :: "int \<Rightarrow> 'b BadgerCache \<Rightarrow> string \<Rightarrow> duration \<times> error option" where
  "BadgerCache_TTL now b keyStr =
     (case txn_Get (DBConn b) now (prefixedKey b keyStr) of
        Inl err \<Rightarrow> (0, Some (Wrapf ''failed to retrieve TTL'' err))
      | Inr it \<Rightarrow>
          (if ExpiresAt it > 0 then (int64 (ExpiresAt it) * Second - now, None)
           else (0, None)))"

subsection \<open>Batched deletion\<close>

text \<open>
  The loop of \<open>deleteKeysMatchingPattern\<close> over the keys the iterator visits: a key is
  skipped when the pattern contains \<open>*\<close> and \<open>matchWildcard(key, pattern)\<close> fails; otherwise
  it is deleted in the transaction and counted, and the loop is left once \<open>batchSize\<close>
  keys are deleted.
\<close>

fun deleteLoop :: "string \<Rightarrow> int \<Rightarrow> string list \<Rightarrow> 'b DB \<Rightarrow> int \<Rightarrow> int \<times> 'b DB" where
  "deleteLoop pattern batchSize [] txn deleted = (deleted, txn)"
| "deleteLoop pattern batchSize (key # rest) txn deleted =
     (if strings_Contains_star pattern \<and> \<not> matchWildcard key pattern then
        deleteLoop pattern batchSize rest txn deleted
      else if deleted + 1 \<ge> batchSize then (deleted + 1, txn_Delete txn key)
      else deleteLoop pattern batchSize rest (txn_Delete txn key) (deleted + 1))"

definition deleteKeysMatchingPattern ::
  "int \<Rightarrow> 'b DB \<Rightarrow> string \<Rightarrow> int \<Rightarrow> (int \<times> error option) \<times> 'b DB" where
  "deleteKeysMatchingPattern now txn pattern batchSize =
     (let pre = strings_Split_star pattern ! 0;
          (deleted, txn') = deleteLoop pattern batchSize (seekKeys txn now pre) txn 0
      in ((deleted, None), txn'))"

text \<open>\<open>DBConn.Update(fn)\<close>: the function runs on the transaction; its error discards the
  writes; otherwise the commit either conflicts, which discards them too, or installs
  them.\<close>

definition DB_Update ::
  "bool \<Rightarrow> 'b DB \<Rightarrow> ('b DB \<Rightarrow> error option \<times> 'b DB) \<Rightarrow> error option \<times> 'b DB" where
  "DB_Update conflict db fn =
     (case fn db of
        (Some err, txn) \<Rightarrow> (Some err, db)
      | (None, txn) \<Rightarrow> if conflict then (Some ErrConflict, db) else (None, txn))"

text \<open>The outcomes of the successive commits of \<open>emptyWithRetries\<close> are given by a list,
  \<open>True\<close> for a conflict; past its end no commit conflicts.\<close>

definition conflictNow :: "bool list \<Rightarrow> bool" where
  "conflictNow conflicts = (case conflicts of [] \<Rightarrow> False | c # cs \<Rightarrow> c)"

text \<open>The inner loop \<open>for retries < maxRetries\<close>. The result is the error the function
  returns from inside the loop, if any, the value of \<open>retries\<close> on leaving it, and the
  store.\<close>

function retryLoop ::
  "('b DB \<Rightarrow> int \<Rightarrow> (int \<times> error option) \<times> 'b DB) \<Rightarrow> int \<Rightarrow> int \<Rightarrow> bool list \<Rightarrow> 'b DB \<Rightarrow> int
     \<Rightarrow> error option \<times> int \<times> 'b DB" where
  "retryLoop deleteFunc batchSize maxRetries conflicts db retries =
     (if retries < maxRetries then
        (case DB_Update (conflictNow conflicts) db
                (\<lambda>txn. case deleteFunc txn batchSize of
                          ((deleted, Some err), txn') \<Rightarrow> (Some err, txn')
                        | ((deleted, None), txn') \<Rightarrow> (None, txn')) of
           (Some err, db') \<Rightarrow>
             (if errors_Is err ErrConflict then
                retryLoop deleteFunc batchSize maxRetries (tl conflicts) db' (retries + 1)
              else (Some (Wrapf ''failed to empty keys'' err), retries, db'))
         | (None, db') \<Rightarrow> (None, retries, db'))
      else (None, retries, db))"
  by pat_completeness auto
termination
  by (relation "measure (\<lambda>(deleteFunc, batchSize, maxRetries, conflicts, db, retries).
        nat (maxRetries - retries))") auto

declare retryLoop.simps [simp del]

text \<open>\<open>emptyWithRetries\<close>. The body of the outer \<open>for\<close> runs once: after the inner loop it
  either returns the too-many-retries error or reaches the unconditional \<open>break\<close>.\<close>

definition emptyWithRetries ::
  "('b DB \<Rightarrow> int \<Rightarrow> (int \<times> error option) \<times> 'b DB) \<Rightarrow> int \<Rightarrow> int \<Rightarrow> bool list \<Rightarrow> 'b DB
     \<Rightarrow> error option \<times> 'b DB" where
  "emptyWithRetries deleteFunc batchSize maxRetries conflicts db =
     (case retryLoop deleteFunc batchSize maxRetries conflicts db 0 of
        (Some err, retries, db') \<Rightarrow> (Some err, db')
      | (None, retries, db') \<Rightarrow>
          (if retries \<ge> maxRetries then (Some (ErrorfRetries maxRetries), db')
           else (None, db')))"


definition BadgerCache_Empty ::
  "int \<Rightarrow> bool list \<Rightarrow> 'b BadgerCache \<Rightarrow> error option \<times> 'b BadgerCache" where
  "BadgerCache_Empty now conflicts b =
     (let prefixedPattern = Prefix b @ '':'';
          batchSize = 10000;
          maxRetries = 3
      in case emptyWithRetries
                (\<lambda>txn batchSize. deleteKeysMatchingPattern now txn prefixedPattern batchSize)
                batchSize maxRetries conflicts (DBConn b) of
           (err, db') \<Rightarrow> (err, b\<lparr>DBConn := db'\<rparr>))"

section \<open>The remote store\<close>

text \<open>
  The remote store (Redis) and its client are outside the repository. The server's
  state maps a key to its payload and an optional absolute expiry (in nanoseconds, on
  the clock of the calls). The commands below are the ones the backend sends, with the
  replies the server documents for them; the connection itself never fails in this
  model.
\<close>

record 'b rentry =
  rValue :: 'b
  rExpireAt :: "int option"

type_synonym 'b Server = "string \<rightharpoonup> 'b rentry"

text \<open>The entry of a key, unless it is missing or past its expiry.\<close>

definition liveEntry :: "'b Server \<Rightarrow> int \<Rightarrow> string \<Rightarrow> 'b rentry option" where
  "liveEntry srv now key =
     (case srv key of
        None \<Rightarrow> None
      | Some e \<Rightarrow>
          (case rExpireAt e of
             None \<Rightarrow> Some e
           | Some t \<Rightarrow> if t \<le> now then None else Some e))"

text \<open>\<open>GET key\<close>: the payload, or the nil reply.\<close>

definition redis_GET :: "'b Server \<Rightarrow> int \<Rightarrow> string \<Rightarrow> 'b option" where
  "redis_GET srv now key = map_option rValue (liveEntry srv now key)"

text \<open>\<open>SET key data\<close>: stores the payload and removes any expiry.\<close>

definition redis_SET :: "'b Server \<Rightarrow> string \<Rightarrow> 'b \<Rightarrow> 'b Server" where
  "redis_SET srv key data = srv(key \<mapsto> \<lparr>rValue = data, rExpireAt = None\<rparr>)"


text \<open>\<open>EXISTS key\<close>, read through \<open>redis.Bool\<close>.\<close>

definition redis_EXISTS :: "'b Server \<Rightarrow> int \<Rightarrow> string \<Rightarrow> bool" where
  "redis_EXISTS srv now key = (liveEntry srv now key \<noteq> None)"

text \<open>\<open>DEL key\<close>.\<close>

definition redis_DEL :: "'b Server \<Rightarrow> string \<Rightarrow> 'b Server" where
  "redis_DEL srv key = srv(key := None)"

text \<open>\<open>EXPIRE key seconds\<close>: replies \<open>0\<close> and changes nothing when the key is missing;
  otherwise replies \<open>1\<close> and sets the expiry, deleting the key when \<open>seconds\<close> is not
  positive.\<close>

definition redis_EXPIRE :: "'b Server \<Rightarrow> int \<Rightarrow> string \<Rightarrow> int \<Rightarrow> int \<times> 'b Server" where
  "redis_EXPIRE srv now key seconds =
     (case liveEntry srv now key of
        None \<Rightarrow> (0, srv)
      | Some e \<Rightarrow>
          (if seconds \<le> 0 then (1, srv(key := None))
           else (1, srv(key \<mapsto> e\<lparr>rExpireAt := Some (now + seconds * Second)\<rparr>))))"

text \<open>\<open>TTL key\<close>: \<open>-2\<close> when the key is missing, \<open>-1\<close> when it has no expiry, otherwise
  the remaining time in seconds, rounded from milliseconds.\<close>

definition redis_TTL :: "'b Server \<Rightarrow> int \<Rightarrow> string \<Rightarrow> int" where
  "redis_TTL srv now key =
     (case liveEntry srv now key of
        None \<Rightarrow> - 2
      | Some e \<Rightarrow>
          (case rExpireAt e of
             None \<Rightarrow> - 1
           | Some t \<Rightarrow> ((t - now) div 1000000 + 500) div 1000))"

section \<open>The remote-store backend\<close>

record 'b RedisCache =
  Conn :: "'b Server"
  Prefix :: string

definition rc_prefixedKey :: "'b RedisCache \<Rightarrow> string \<Rightarrow> string" where
  "rc_prefixedKey rc key = RedisCache.Prefix rc @ '':'' @ key"


text \<open>\<open>Get\<close>: \<open>redis.Bytes\<close> turns the nil reply into \<open>redis.ErrNil\<close>, which the method
  answers with \<open>nil, nil\<close>; the decoded map is indexed without a presence test.\<close>

definition RedisCache_Get ::
  "('v, 'b) gob \<Rightarrow> int \<Rightarrow> 'b RedisCache \<Rightarrow> string \<Rightarrow> 'v option \<times> error option" where
  "RedisCache_Get g now rc keyStr =
     (let pk = rc_prefixedKey rc keyStr
      in case (case redis_GET (Conn rc) now pk of None \<Rightarrow> Inl ErrNil | Some data \<Rightarrow> Inr data) of
           Inl err \<Rightarrow>
             (if errors_Is err ErrNil then (None, None)
              else (None, Some (Wrapf ''failed to get cache'' err)))
         | Inr cacheRetrieved \<Rightarrow>
             (case decodeValue g cacheRetrieved of
                Inl err \<Rightarrow> (None, Some (Wrapf ''failed to decode value'' err))
              | Inr result \<Rightarrow> (result pk, None)))"

definition RedisCache_Exists :: "int \<Rightarrow> 'b RedisCache \<Rightarrow> string \<Rightarrow> bool \<times> error option" where
  "RedisCache_Exists now rc keyStr = (redis_EXISTS (Conn rc) now (rc_prefixedKey rc keyStr), None)"

definition RedisCache_Delete :: "'b RedisCache \<Rightarrow> string \<Rightarrow> error option \<times> 'b RedisCache" where
  "RedisCache_Delete rc keyStr = (None, rc\<lparr>Conn := redis_DEL (Conn rc) (rc_prefixedKey rc keyStr)\<rparr>)"

text \<open>\<open>Expire\<close> sends \<open>EXPIRE\<close> with the duration in whole minutes and drops the reply.\<close>

definition RedisCache_Expire ::
  "int \<Rightarrow> 'b RedisCache \<Rightarrow> string \<Rightarrow> duration \<Rightarrow> error option \<times> 'b RedisCache" where
  "RedisCache_Expire now rc keyStr expiration =
     (case redis_EXPIRE (Conn rc) now (rc_prefixedKey rc keyStr) (Minutes_int expiration) of
        (reply, srv) \<Rightarrow> (None, rc\<lparr>Conn := srv\<rparr>))"

text \<open>\<open>TTL\<close> returns \<open>time.Duration(ttl) * time.Minute\<close> for the integer reply \<open>ttl\<close>.\<close>

definition RedisCache_TTL :: "int \<Rightarrow> 'b RedisCache \<Rightarrow> string \<Rightarrow> duration \<times> error option" where
  "RedisCache_TTL now rc keyStr =
     (let ttl = redis_TTL (Conn rc) now (rc_prefixedKey rc keyStr)
      in (int64 (ttl * Minute), None))"

definition RedisCache_Update ::
  "('v, 'b) gob \<Rightarrow> int \<Rightarrow> 'b RedisCache \<Rightarrow> string \<Rightarrow> 'v \<Rightarrow> duration list
     \<Rightarrow> error option \<times> 'b RedisCache" where
  "RedisCache_Update g now rc keyStr val expires =
     (let pk = rc_prefixedKey rc keyStr;
          exists = redis_EXISTS (Conn rc) now pk
      in if \<not> exists then (Some (Errorf (''key '' @ keyStr @ '' does not exist'')), rc)
         else
           (let entryCache = [pk \<mapsto> val]
            in case encodeValue g entryCache of
                 Inl err \<Rightarrow> (Some (Wrapf ''failed to encode value'' err), rc)
               | Inr encodedValue \<Rightarrow>
                   (let srv = redis_SET (Conn rc) pk encodedValue
                    in if length expires > 0 then
                         (case redis_EXPIRE srv now pk (Minutes_int (expires ! 0)) of
                            (reply, srv') \<Rightarrow> (None, rc\<lparr>Conn := srv'\<rparr>))
                       else (None, rc\<lparr>Conn := srv\<rparr>))))"

text \<open>\<open>KeysWithBatchSize\<close> of the remote backend has an empty body: \<open>return nil, nil\<close>.\<close>

definition RedisCache_KeysWithBatchSize ::
  "'b RedisCache \<Rightarrow> int \<Rightarrow> string list \<Rightarrow> string list \<times> error option" where
  "RedisCache_KeysWithBatchSize rc batchSize patternOrKey = ([], None)"

section \<open>Facts about the string primitives\<close>

lemma strings_HasPrefix_iff_prefix: "strings_HasPrefix s pre \<longleftrightarrow> prefix pre s"
  unfolding strings_HasPrefix_def
  by (metis append_eq_conv_conj prefix_def prefix_length_le take_is_prefix)

lemma strings_HasSuffix_iff_suffix: "strings_HasSuffix s suf \<longleftrightarrow> suffix suf s"
proof
  assume "strings_HasSuffix s suf"
  then have "drop (length s - length suf) s = suf"
    by (simp add: strings_HasSuffix_def)
  then show "suffix suf s"
    by (metis suffix_drop)
next
  assume "suffix suf s"
  then obtain xs where s: "s = xs @ suf"
    by (auto simp: suffix_def)
  then show "strings_HasSuffix s suf"
    by (simp add: strings_HasSuffix_def)
qed

lemma strings_Split_star_nonempty: "strings_Split_star s \<noteq> []"
  by (induction s) (auto split: list.splits)


lemma strings_Split_star_append:
  "CHR ''*'' \<notin> set a \<Longrightarrow>
     strings_Split_star (a @ CHR ''*'' # r) = a # strings_Split_star r"
  by (induction a) auto

lemma strings_Split_star_hd:
  "hd (strings_Split_star s) = takeWhile (\<lambda>c. c \<noteq> CHR ''*'') s"
  by (induction s) (auto simp: strings_Split_star_nonempty split: list.splits)

lemma matchWildcard_star:
  assumes "CHR ''*'' \<notin> set a"
  shows "matchWildcard s (a @ CHR ''*'' # r) \<longleftrightarrow>
     prefix a s \<and> (takeWhile (\<lambda>c. c \<noteq> CHR ''*'') r \<noteq> [] \<longrightarrow> suffix (takeWhile (\<lambda>c. c \<noteq> CHR ''*'') r) s)"
proof -
  obtain b ps where r: "strings_Split_star r = b # ps"
    using strings_Split_star_nonempty by (cases "strings_Split_star r") auto
  have b: "b = takeWhile (\<lambda>c. c \<noteq> CHR ''*'') r"
    using r strings_Split_star_hd[of r] by simp
  show ?thesis
    by (simp add: matchWildcard_def strings_Split_star_append[OF assms] r b[symmetric]
        strings_HasPrefix_iff_prefix strings_HasSuffix_iff_suffix)
qed

lemma split_at_first_star:
  assumes "CHR ''*'' \<in> set p"
  shows "p = takeWhile (\<lambda>c. c \<noteq> CHR ''*'') p @ CHR ''*'' # tl (dropWhile (\<lambda>c. c \<noteq> CHR ''*'') p)"
proof -
  have ne: "dropWhile (\<lambda>c. c \<noteq> CHR ''*'') p \<noteq> []"
    using assms by (simp add: dropWhile_eq_Nil_conv)
  then have "hd (dropWhile (\<lambda>c. c \<noteq> CHR ''*'') p) = CHR ''*''"
    using hd_dropWhile[of "\<lambda>c. c \<noteq> CHR ''*''" p] by simp
  with ne have "dropWhile (\<lambda>c. c \<noteq> CHR ''*'') p = CHR ''*'' # tl (dropWhile (\<lambda>c. c \<noteq> CHR ''*'') p)"
    by (metis list.collapse)
  then show ?thesis
    by (metis takeWhile_dropWhile_id)
qed

lemma no_star_takeWhile: "CHR ''*'' \<notin> set (takeWhile (\<lambda>c. c \<noteq> CHR ''*'') p)"
  by (induction p) auto

lemma takeWhile_no_star_id: "CHR ''*'' \<notin> set b \<Longrightarrow> takeWhile (\<lambda>c. c \<noteq> CHR ''*'') (b @ r) = b @ takeWhile (\<lambda>c. c \<noteq> CHR ''*'') r"
  by (induction b) auto

section \<open>Properties of the wildcard matcher\<close>

text \<open>
  Claim C8. The matcher agrees with the reference vectors: \<open>"abc"\<close> matches the pattern
  \<open>"abc"\<close>, \<open>"abcdef"\<close> matches \<open>"abc*"\<close>, \<open>"xabc"\<close> does not match \<open>"abc*"\<close>, and every
  non-empty string matches \<open>"*"\<close>.
\<close>
theorem matchWildcard_reference_vectors:
  "matchWildcard ''abc'' ''abc'' \<and> matchWildcard ''abcdef'' ''abc*'' \<and>
   \<not> matchWildcard ''xabc'' ''abc*'' \<and> (\<forall>s. s \<noteq> [] \<longrightarrow> matchWildcard s ''*'')"
  by (simp add: matchWildcard_def strings_HasPrefix_def)

theorem matchWildcard_reference_vectors_witness:
  "''anything'' \<noteq> [] \<and> matchWildcard ''anything'' ''*''"
  using matchWildcard_reference_vectors by simp

text \<open>
  Claim C10. For a pattern \<open>p\<close> that contains \<open>*\<close>, let \<open>a\<close> be its text before the first
  \<open>*\<close> and \<open>b\<close> the text from there up to the second \<open>*\<close> (or the end). Then \<open>s\<close> matches
  \<open>p\<close> exactly when \<open>s\<close> starts with \<open>a\<close> and, if \<open>b\<close> is not empty, ends with \<open>b\<close>; whatever
  follows a second \<open>*\<close> changes nothing; and every string, the empty one included,
  matches \<open>"*"\<close>.
\<close>
theorem matchWildcard_star_pattern:
  "CHR ''*'' \<in> set p \<Longrightarrow>
     (let a = takeWhile (\<lambda>c. c \<noteq> CHR ''*'') p;
          b = takeWhile (\<lambda>c. c \<noteq> CHR ''*'') (tl (dropWhile (\<lambda>c. c \<noteq> CHR ''*'') p))
      in (matchWildcard s p \<longleftrightarrow> prefix a s \<and> (b \<noteq> [] \<longrightarrow> suffix b s)) \<and>
         (\<forall>c. matchWildcard s (a @ ''*'' @ b @ ''*'' @ c) = matchWildcard s (a @ ''*'' @ b))) \<and>
     matchWildcard s ''*'' \<and> matchWildcard [] ''*''"
proof -
  assume star: "CHR ''*'' \<in> set p"
  define a where "a = takeWhile (\<lambda>c. c \<noteq> CHR ''*'') p"
  define r where "r = tl (dropWhile (\<lambda>c. c \<noteq> CHR ''*'') p)"
  define b where "b = takeWhile (\<lambda>c. c \<noteq> CHR ''*'') r"
  have a: "CHR ''*'' \<notin> set a"
    unfolding a_def by (rule no_star_takeWhile)
  have bb: "CHR ''*'' \<notin> set b"
    unfolding b_def by (rule no_star_takeWhile)
  have p: "p = a @ CHR ''*'' # r"
    unfolding a_def r_def by (rule split_at_first_star[OF star])
  have m1: "matchWildcard s p \<longleftrightarrow> prefix a s \<and> (b \<noteq> [] \<longrightarrow> suffix b s)"
    unfolding b_def by (subst p) (rule matchWildcard_star[OF a])
  have tw: "takeWhile (\<lambda>c. c \<noteq> CHR ''*'') (b @ CHR ''*'' # c) = b" for c
    using takeWhile_no_star_id[OF bb, of "CHR ''*'' # c"] by simp
  have tw2: "takeWhile (\<lambda>c. c \<noteq> CHR ''*'') b = b"
    using takeWhile_no_star_id[OF bb, of "[]"] by simp
  have m2: "matchWildcard s (a @ ''*'' @ b @ ''*'' @ c) = matchWildcard s (a @ ''*'' @ b)" for c
    using matchWildcard_star[OF a, of s "b @ CHR ''*'' # c"] matchWildcard_star[OF a, of s b]
    by (simp add: tw tw2)
  have m3: "matchWildcard t ''*''" for t
    by (simp add: matchWildcard_def strings_HasPrefix_def)
  show ?thesis
    using m1 m2 m3 by (simp add: a_def[symmetric] r_def[symmetric] b_def[symmetric] Let_def)
qed

theorem matchWildcard_star_pattern_witness:
  "CHR ''*'' \<in> set ''a*b*c'' \<and> ''b'' \<noteq> [] \<and> matchWildcard ''axb'' ''a*b*c''"
proof -
  have h: "CHR ''*'' \<in> set ''a*b*c''"
    by simp
  note t = matchWildcard_star_pattern[OF h, of "''axb''", unfolded Let_def, THEN conjunct1, THEN conjunct1]
  show ?thesis
    using t by (simp add: suffix_to_prefix)
qed


section \<open>Facts about the embedded store\<close>

lemma map_of_txn_SetEntry_same: "map_of (txn_SetEntry db key it) key = Some it"
  by (induction db key it rule: txn_SetEntry.induct) auto

lemma map_of_txn_SetEntry_other:
  "k \<noteq> key \<Longrightarrow> map_of (txn_SetEntry db key it) k = map_of db k"
  by (induction db key it rule: txn_SetEntry.induct) auto


section \<open>Reading back what was written\<close>




text \<open>
  Claim C5. When the key has no live entry (it was never written, was deleted, or has
  expired), \<open>Get\<close> of the embedded backend returns a nil value with the error
  \<open>key not found\<close>, and \<open>Get\<close> of the remote backend returns a nil value with no error.
\<close>
theorem Get_miss_divergence:
  "(liveItem (DBConn b) now (prefixedKey b k) = None \<longrightarrow>
      BadgerCache_Get g now b k = (None, Some (Errorf ''key not found''))) \<and>
   (liveEntry (Conn rc) now (rc_prefixedKey rc k) = None \<longrightarrow>
      RedisCache_Get g' now rc k = (None, None))"
  by (simp add: BadgerCache_Get_def txn_Get_def RedisCache_Get_def redis_GET_def)

theorem Get_miss_divergence_witness:
  "liveItem [(''p:k'', \<lparr>Value = [''p:k'' \<mapsto> ''v''], ExpiresAt = 5\<rparr>)] (10 * Second) ''p:k'' = None \<and>
   BadgerCache_Get \<lparr>Encode = Inr, Decode = Inr\<rparr> (10 * Second)
      \<lparr>DBConn = [(''p:k'', \<lparr>Value = [''p:k'' \<mapsto> ''v''], ExpiresAt = 5\<rparr>)], Prefix = ''p''\<rparr> ''k''
     = (None, Some (Errorf ''key not found'')) \<and>
   liveEntry (Map.empty :: string \<rightharpoonup> (string \<rightharpoonup> string) rentry) (10 * Second) ''p:k'' = None \<and>
   RedisCache_Get \<lparr>Encode = Inr, Decode = Inr\<rparr> (10 * Second)
      \<lparr>Conn = (Map.empty :: string \<rightharpoonup> (string \<rightharpoonup> string) rentry), Prefix = ''p''\<rparr> ''k''
     = (None :: string option, None)"
proof -
  let ?b = "\<lparr>DBConn = [(''p:k'', \<lparr>Value = [''p:k'' \<mapsto> ''v''], ExpiresAt = 5\<rparr>)], Prefix = ''p''\<rparr>"
  let ?rc = "\<lparr>Conn = (Map.empty :: string \<rightharpoonup> (string \<rightharpoonup> string) rentry), Prefix = ''p''\<rparr>"
  let ?g = "\<lparr>Encode = Inr, Decode = Inr\<rparr> :: (string, string \<rightharpoonup> string) gob"
  have h1: "liveItem (DBConn ?b) (10 * Second) (prefixedKey ?b ''k'') = None"
    by (simp add: liveItem_def prefixedKey_def isExpired_def uint64_def time_Unix_def Second_def)
  have h2: "liveEntry (Conn ?rc) (10 * Second) (rc_prefixedKey ?rc ''k'') = None"
    by (simp add: liveEntry_def)
  from Get_miss_divergence[of ?b "10 * Second" "''k''" ?g ?rc ?g] h1 h2
  have "BadgerCache_Get ?g (10 * Second) ?b ''k'' = (None, Some (Errorf ''key not found''))"
   and "RedisCache_Get ?g (10 * Second) ?rc ''k'' = (None, None)"
    by blast+
  moreover from h1 have "liveItem [(''p:k'', \<lparr>Value = [''p:k'' \<mapsto> ''v''], ExpiresAt = 5\<rparr>)] (10 * Second) ''p:k'' = None"
    by (simp add: prefixedKey_def)
  moreover from h2 have "liveEntry (Map.empty :: string \<rightharpoonup> (string \<rightharpoonup> string) rentry) (10 * Second) ''p:k'' = None"
    by (simp add: rc_prefixedKey_def)
  ultimately show ?thesis by blast
qed




section \<open>Update on a key that is absent\<close>

lemma BadgerCache_Update_eq_Set:
  "BadgerCache_Update g now b k v expires = BadgerCache_Set g now b k v expires"
  by (simp add: BadgerCache_Update_def BadgerCache_Set_def)

lemma RedisCache_Update_absent:
  "liveEntry (Conn rc) now (rc_prefixedKey rc k) = None \<Longrightarrow>
     RedisCache_Update g now rc k v expires = (Some (Errorf (''key '' @ k @ '' does not exist'')), rc)"
  by (simp add: RedisCache_Update_def redis_EXISTS_def)

text \<open>
  Claim C2. \<open>Update\<close> on a key that is absent must fail with a "key does not exist" error
  and must not create the key. The remote backend does so (\<open>RedisCache_Update_absent\<close>).
  The embedded backend's \<open>Update\<close> writes without looking (\<open>BadgerCache_Update_eq_Set\<close>):
  on an empty store, \<open>Update("k", "v")\<close> returns no error and the key exists afterwards.
\<close>
theorem BadgerCache_Update_creates_absent_key:
  "BadgerCache_Exists 0 \<lparr>DBConn = ([] :: (string \<rightharpoonup> string) DB), Prefix = ''p''\<rparr> ''k'' = (False, None) \<and>
   BadgerCache_Update \<lparr>Encode = Inr, Decode = Inr\<rparr> 0 \<lparr>DBConn = [], Prefix = ''p''\<rparr> ''k'' ''v'' []
     = (None, \<lparr>DBConn = [(''p:k'', \<lparr>Value = [''p:k'' \<mapsto> ''v''], ExpiresAt = 0\<rparr>)], Prefix = ''p''\<rparr>) \<and>
   BadgerCache_Exists 0
     \<lparr>DBConn = [(''p:k'', \<lparr>Value = [''p:k'' \<mapsto> ''v''], ExpiresAt = 0\<rparr>)], Prefix = ''p''\<rparr> ''k'' = (True, None)"
  by (simp add: BadgerCache_Exists_def BadgerCache_Update_def txn_Get_def liveItem_def prefixedKey_def
      encodeValue_def NewEntry_def isExpired_def Let_def)

section \<open>TTL of a key without expiry\<close>

lemma BadgerCache_TTL_no_expiry:
  "liveItem (DBConn b) now (prefixedKey b k) = Some it \<Longrightarrow> ExpiresAt it = 0 \<Longrightarrow>
     BadgerCache_TTL now b k = (0, None)"
  by (simp add: BadgerCache_TTL_def txn_Get_def)

lemma RedisCache_TTL_no_expiry:
  "liveEntry (Conn rc) now (rc_prefixedKey rc k) = Some e \<Longrightarrow> rExpireAt e = None \<Longrightarrow>
     RedisCache_TTL now rc k = (- Minute, None)"
  by (simp add: RedisCache_TTL_def redis_TTL_def int64_def Minute_def Second_def)

text \<open>
  Claim C3. \<open>TTL\<close> of a key that exists without expiry must be zero. The embedded backend
  returns zero (\<open>BadgerCache_TTL_no_expiry\<close>). The remote backend multiplies the server's
  reply \<open>-1\<close> by one minute: the result is minus one minute, not zero.
\<close>
theorem RedisCache_TTL_no_expiry_not_zero:
  "RedisCache_Exists 0 \<lparr>Conn = [''p:k'' \<mapsto> \<lparr>rValue = ''data'', rExpireAt = None\<rparr>], Prefix = ''p''\<rparr> ''k''
     = (True, None) \<and>
   RedisCache_TTL 0 \<lparr>Conn = [''p:k'' \<mapsto> \<lparr>rValue = ''data'', rExpireAt = None\<rparr>], Prefix = ''p''\<rparr> ''k''
     = (- 60000000000, None)"
  by (simp add: RedisCache_Exists_def redis_EXISTS_def RedisCache_TTL_def redis_TTL_def liveEntry_def
      rc_prefixedKey_def int64_def Minute_def Second_def)

section \<open>Expire\<close>

lemma BadgerCache_Expire_absent:
  "liveItem (DBConn b) now (prefixedKey b k) = None \<Longrightarrow>
     BadgerCache_Expire now b k d = (Some ErrKeyNotFound, b)"
  by (simp add: BadgerCache_Expire_def txn_Get_def)

lemma BadgerCache_Expire_present:
  assumes "liveItem (DBConn b) now (prefixedKey b k) = Some it"
  shows "fst (BadgerCache_Expire now b k d) = None"
    and "map_of (DBConn (snd (BadgerCache_Expire now b k d))) (prefixedKey b k)
           = Some \<lparr>Value = Value it, ExpiresAt = uint64 (time_Unix (now + d))\<rparr>"
    and "k' \<noteq> prefixedKey b k \<Longrightarrow>
           map_of (DBConn (snd (BadgerCache_Expire now b k d))) k' = map_of (DBConn b) k'"
  using assms
  by (simp_all add: BadgerCache_Expire_def txn_Get_def map_of_txn_SetEntry_same
      map_of_txn_SetEntry_other WithTTL_def)

lemma RedisCache_Expire_absent:
  "liveEntry (Conn rc) now (rc_prefixedKey rc k) = None \<Longrightarrow>
     RedisCache_Expire now rc k d = (None, rc)"
  by (simp add: RedisCache_Expire_def redis_EXPIRE_def)

text \<open>
  Claim C6. \<open>Expire\<close> on an absent key must return an error. The embedded backend returns
  the store's not-found error, and on a live key rewrites the same payload with the new
  expiry (\<open>BadgerCache_Expire_absent\<close>, \<open>BadgerCache_Expire_present\<close>). The remote backend
  drops the server's reply and returns no error on an absent key.
\<close>
theorem RedisCache_Expire_absent_key_no_error:
  "RedisCache_Exists 0 \<lparr>Conn = (Map.empty :: string Server), Prefix = ''p''\<rparr> ''k'' = (False, None) \<and>
   RedisCache_Expire 0 \<lparr>Conn = (Map.empty :: string Server), Prefix = ''p''\<rparr> ''k'' Minute
     = (None, \<lparr>Conn = Map.empty, Prefix = ''p''\<rparr>)"
  by (simp add: RedisCache_Exists_def redis_EXISTS_def RedisCache_Expire_def redis_EXPIRE_def liveEntry_def)

section \<open>Listing keys with a batch size\<close>

lemma scanBatch_take:
  "0 < n \<Longrightarrow> int (length acc) < n \<Longrightarrow>
     scanBatch P n ks acc = take (nat n) (acc @ filter P ks)"
proof (induction ks arbitrary: acc)
  case Nil
  then show ?case by simp
next
  case (Cons key rest)
  show ?case
  proof (cases "P key")
    case False
    with Cons show ?thesis by simp
  next
    case True
    show ?thesis
    proof (cases "int (length (acc @ [key])) \<ge> n")
      case full: True
      with Cons.prems have "nat n = Suc (length acc)" by simp
      with True full show ?thesis by simp
    next
      case notfull: False
      with Cons.IH[of "acc @ [key]"] Cons.prems True show ?thesis by simp
    qed
  qed
qed

lemma keysExact_acc:
  "keysExact b now ks acc = (acc @ fst (keysExact b now ks []), None)"
proof (induction ks arbitrary: acc)
  case Nil
  then show ?case by simp
next
  case (Cons k ks)
  show ?case
  proof (cases "liveItem (DBConn b) now (prefixedKey b k)")
    case None
    with Cons.IH[of acc] show ?thesis by (simp add: txn_Get_def)
  next
    case (Some it)
    with Cons.IH[of "acc @ [prefixedKey b k]"] Cons.IH[of "[prefixedKey b k]"]
    show ?thesis by (simp add: txn_Get_def)
  qed
qed

lemma keysExactBatch_take:
  "0 < n \<Longrightarrow> int (length acc) < n \<Longrightarrow>
     keysExactBatch b now n ks acc = (take (nat n) (fst (keysExact b now ks acc)), None)"
proof (induction ks arbitrary: acc)
  case Nil
  then show ?case by simp
next
  case (Cons k ks)
  show ?case
  proof (cases "liveItem (DBConn b) now (prefixedKey b k)")
    case None
    with Cons show ?thesis by (simp add: txn_Get_def)
  next
    case (Some it)
    show ?thesis
    proof (cases "int (length (acc @ [prefixedKey b k])) \<ge> n")
      case True
      with Cons.prems have n: "nat n = Suc (length acc)" by simp
      have "fst (keysExact b now ks (acc @ [prefixedKey b k]))
              = (acc @ [prefixedKey b k]) @ fst (keysExact b now ks [])"
        using keysExact_acc[of b now ks "acc @ [prefixedKey b k]"] by simp
      with True Some n show ?thesis by (simp add: txn_Get_def)
    next
      case False
      with Cons.IH[of "acc @ [prefixedKey b k]"] Cons.prems Some show ?thesis
        by (simp add: txn_Get_def)
    qed
  qed
qed

lemma keysExact_single_length: "length (fst (keysExact b now [k] [])) \<le> 1"
  by (simp add: txn_Get_def split: option.splits)

lemma keysExact_snd: "snd (keysExact b now ks acc) = None"
  using keysExact_acc[of b now ks acc] by simp

lemma BadgerCache_KeysWithBatchSize_take:
  assumes "0 < n"
  shows "BadgerCache_KeysWithBatchSize now b n args
           = (take (nat n) (fst (BadgerCache_Keys now b args)), None)"
proof -
  have n: "(if n = 0 then 1000 else n) = n"
    using assms by simp
  consider "args = []" | k where "args = [k]" | "length args > 1"
  proof (cases args)
    case Nil
    then show ?thesis using that by simp
  next
    case (Cons k ks)
    then show ?thesis using that by (cases ks) auto
  qed
  then show ?thesis
  proof cases
    case 1
    then show ?thesis
      using assms by (simp add: BadgerCache_KeysWithBatchSize_def BadgerCache_Keys_def scanBatch_take)
  next
    case 2
    have "take (nat n) (fst (keysExact b now [k] [])) = fst (keysExact b now [k] [])"
      using keysExact_single_length[of b now k] assms by simp
    moreover have "keysExact b now [k] [] = (fst (keysExact b now [k] []), None)"
      using keysExact_snd[of b now "[k]" "[]"] by (metis prod.collapse)
    ultimately show ?thesis
      using assms 2
      by (simp add: BadgerCache_KeysWithBatchSize_def BadgerCache_Keys_def scanBatch_take del: keysExact.simps)
  next
    case 3
    then have "args \<noteq> []" "length args \<noteq> 1" "length args \<noteq> 0"
      by auto
    then show ?thesis
      using assms by (simp add: BadgerCache_KeysWithBatchSize_def BadgerCache_Keys_def keysExactBatch_take)
  qed
qed

lemma BadgerCache_KeysWithBatchSize_zero:
  "BadgerCache_KeysWithBatchSize now b 0 args = BadgerCache_KeysWithBatchSize now b 1000 args"
  by (simp add: BadgerCache_KeysWithBatchSize_def)

text \<open>
  Claim C4. \<open>KeysWithBatchSize\<close> must list like \<open>Keys\<close>, cut at the batch size. The embedded
  backend does (\<open>BadgerCache_KeysWithBatchSize_take\<close>, \<open>BadgerCache_KeysWithBatchSize_zero\<close>).
  The remote backend returns the empty list: with two live keys under the prefix and
  batch size one it lists nothing, for no argument and for the two exact keys.
\<close>
theorem RedisCache_KeysWithBatchSize_returns_nothing:
  "RedisCache_Exists 0 \<lparr>Conn = [''p:a'' \<mapsto> \<lparr>rValue = ''x'', rExpireAt = None\<rparr>,
                                 ''p:b'' \<mapsto> \<lparr>rValue = ''y'', rExpireAt = None\<rparr>], Prefix = ''p''\<rparr> ''a'' = (True, None) \<and>
   RedisCache_Exists 0 \<lparr>Conn = [''p:a'' \<mapsto> \<lparr>rValue = ''x'', rExpireAt = None\<rparr>,
                                 ''p:b'' \<mapsto> \<lparr>rValue = ''y'', rExpireAt = None\<rparr>], Prefix = ''p''\<rparr> ''b'' = (True, None) \<and>
   RedisCache_KeysWithBatchSize \<lparr>Conn = [''p:a'' \<mapsto> \<lparr>rValue = ''x'', rExpireAt = None\<rparr>,
                                 ''p:b'' \<mapsto> \<lparr>rValue = ''y'', rExpireAt = None\<rparr>], Prefix = ''p''\<rparr> 1 [] = ([], None) \<and>
   RedisCache_KeysWithBatchSize \<lparr>Conn = [''p:a'' \<mapsto> \<lparr>rValue = ''x'', rExpireAt = None\<rparr>,
                                 ''p:b'' \<mapsto> \<lparr>rValue = ''y'', rExpireAt = None\<rparr>], Prefix = ''p''\<rparr> 1 [''a'', ''b''] = ([], None)"
  by (simp add: RedisCache_Exists_def redis_EXISTS_def liveEntry_def rc_prefixedKey_def
      RedisCache_KeysWithBatchSize_def)


section \<open>Namespace isolation of the key listing\<close>








section \<open>Batched deletion deletes one batch\<close>








lemma retryLoop_one_batch:
  assumes "\<And>txn. snd (fst (deleteFunc txn batchSize)) = None"
  shows "retryLoop deleteFunc batchSize maxRetries conflicts db retries = (e, r, db') \<Longrightarrow>
           e = None \<and> ((r < maxRetries \<and> db' = snd (deleteFunc db batchSize)) \<or> (r \<ge> maxRetries \<and> db' = db))"
  using assms
proof (induction deleteFunc batchSize maxRetries conflicts db retries rule: retryLoop.induct)
  case (1 deleteFunc batchSize maxRetries conflicts db retries)
  obtain c txn' where f: "deleteFunc db batchSize = ((c, None), txn')"
    using "1.prems"(2)[of db] by (cases "deleteFunc db batchSize") auto
  let ?fn = "\<lambda>txn. case deleteFunc txn batchSize of
                      ((deleted, Some err), txn') \<Rightarrow> (Some err, txn')
                    | ((deleted, None), txn') \<Rightarrow> (None, txn')"
  show ?case
  proof (cases "retries < maxRetries")
    case False
    with "1.prems"(1) show ?thesis
      by (subst (asm) retryLoop.simps) simp
  next
    case lt: True
    show ?thesis
    proof (cases "conflictNow conflicts")
      case True
      then have upd: "DB_Update (conflictNow conflicts) db ?fn = (Some ErrConflict, db)"
        by (simp add: DB_Update_def f)
      have "retryLoop deleteFunc batchSize maxRetries (tl conflicts) db (retries + 1) = (e, r, db')"
        using "1.prems"(1) lt
        by (subst (asm) retryLoop.simps) (simp add: upd)
      from "1.IH"[OF lt upd[symmetric] refl _ this "1.prems"(2)] show ?thesis
        by simp
    next
      case False
      then have upd: "DB_Update (conflictNow conflicts) db ?fn = (None, txn')"
        by (simp add: DB_Update_def f)
      have "(e, r, db') = (None, retries, txn')"
        using "1.prems"(1) lt
        by (subst (asm) retryLoop.simps) (simp add: upd)
      with lt f show ?thesis
        by simp
    qed
  qed
qed

lemma emptyWithRetries_one_batch:
  assumes "\<And>txn. snd (fst (deleteFunc txn batchSize)) = None"
      and "emptyWithRetries deleteFunc batchSize maxRetries conflicts db = (None, db')"
  shows "db' = snd (deleteFunc db batchSize)"
proof -
  obtain e r d where l: "retryLoop deleteFunc batchSize maxRetries conflicts db 0 = (e, r, d)"
    by (metis prod.collapse)
  from retryLoop_one_batch[OF assms(1) l] assms(2) show ?thesis
    by (auto simp: emptyWithRetries_def l split: if_splits)
qed











end
